theory Spec2Isabelle
  imports Main
begin

section \<open>Shared data\<close>

text \<open>
  \<^verbatim>\<open>cdk.Environment\<close> is an object with two optional string fields. An \<^verbatim>\<open>Error\<close> thrown
  by the code carries its message; a failed \<^verbatim>\<open>readFileSync\<close> carries the path; an error
  thrown inside the CDK library carries the name of the library call that threw.
\<close>

record Environment =
  account :: "string option"
  region :: "string option"

datatype error = Error string | ENOENT string | LibraryError string

section \<open>Environment configuration: src/config/env-config.ts\<close>

text \<open>
  The constructor receives the parsed JSON object \<^verbatim>\<open>configFile\<close>. Each recognised key is
  either absent or holds an environment object, so the object is a map from key names to
  environments, and the truthiness test \<^verbatim>\<open>configFile.envDev\<close> of the source (an object is
  always truthy, an absent key reads as \<^verbatim>\<open>undefined\<close>) is the test that the key is bound.

  The fields of the class are declared without initialisers: a field the constructor does
  not assign stays \<^verbatim>\<open>undefined\<close>, which is \<open>None\<close> here. In particular \<^verbatim>\<open>isDev\<close> is
  assigned on the development path only.
\<close>

type_synonym configFile = "string \<rightharpoonup> Environment"

record EnvConfigClass =
  isDev :: "bool option"
  envPipeline :: "Environment option"
  envBeta :: "Environment option"
  envProd :: "Environment option"
  envRelease :: "Environment option"

definition new_EnvConfigClass :: "configFile \<Rightarrow> error + EnvConfigClass" where
  "new_EnvConfigClass configFile =
     (case configFile ''envDev'' of
        Some dev \<Rightarrow>
          Inr \<lparr>isDev = Some True, envPipeline = Some dev, envBeta = Some dev,
               envProd = None, envRelease = None\<rparr>
      | None \<Rightarrow>
     (case configFile ''envPipeline'' of
        None \<Rightarrow> Inl (Error ''Error: envPipeline must be specified.'')
      | Some pipeline_env \<Rightarrow>
     (case configFile ''envBeta'' of
        None \<Rightarrow> Inl (Error ''Error: envBeta must be specified.'')
      | Some beta_env \<Rightarrow>
     (case configFile ''envProd'' of
        None \<Rightarrow> Inl (Error ''Error: envProd must be specified.'')
      | Some prod_env \<Rightarrow>
     (case configFile ''envRelease'' of
        None \<Rightarrow> Inl (Error ''Error: envRelease must be specified.'')
      | Some release_env \<Rightarrow>
          Inr \<lparr>isDev = None, envPipeline = Some pipeline_env, envBeta = Some beta_env,
               envProd = Some prod_env, envRelease = Some release_env\<rparr>)))))"

text \<open>
  The reading of the specification's words, to compare the constructor with: the four
  required keys in their check order, and those of them a configuration leaves out.
\<close>

definition required_keys :: "string list" where
  "required_keys = [''envPipeline'', ''envBeta'', ''envProd'', ''envRelease'']"

definition missing_keys :: "configFile \<Rightarrow> string list" where
  "missing_keys configFile = filter (\<lambda>k. configFile k = None) required_keys"

definition must_be_specified :: "string \<Rightarrow> error" where
  "must_be_specified k = Error (''Error: '' @ k @ '' must be specified.'')"

section \<open>Runner stack: the platform dispatch and the resources it configures\<close>

subsection \<open>Inputs\<close>

text \<open>
  Modelled from the spec: the enumerations \<^verbatim>\<open>PlatformType\<close> (\<^verbatim>\<open>../config/runner-config\<close>)
  and \<^verbatim>\<open>ENVIRONMENT_STAGE\<close> (\<^verbatim>\<open>./finch-pipeline-app-stage\<close>) are imported by the source but
  declared elsewhere. The specification lists the platforms MAC, WINDOWS, AMAZONLINUX and
  one further Linux platform, and the stages Beta and Release beside the other pipeline
  stages. \<^verbatim>\<open>PlatformType\<close> is a string enumeration: the source splices \<^verbatim>\<open>platform\<close> into
  names, and the specification gives \<^verbatim>\<open>arm64_mac\<close> and \<^verbatim>\<open>foo-amazonlinux-2023\<close> as results,
  which fixes the values of MAC and AMAZONLINUX. The other two values occur only inside
  \<^verbatim>\<open>resourceGroupName\<close>.
\<close>

datatype PlatformType = MAC | WINDOWS | AMAZONLINUX | LINUX_OTHER

fun PlatformType_value :: "PlatformType \<Rightarrow> string" where
  "PlatformType_value MAC = ''mac''"
| "PlatformType_value WINDOWS = ''windows''"
| "PlatformType_value AMAZONLINUX = ''amazonlinux''"
| "PlatformType_value LINUX_OTHER = ''fedora''"

datatype ENVIRONMENT_STAGE = Beta | Prod | Release

text \<open>
  \<^verbatim>\<open>RunnerType\<close> is declared beside \<^verbatim>\<open>PlatformType\<close>; the source reads these five fields of
  it, compares \<^verbatim>\<open>arch\<close> and \<^verbatim>\<open>version\<close> with string literals, and passes
  \<^verbatim>\<open>desiredInstances\<close> on as a number.
\<close>

record RunnerType =
  platform :: PlatformType
  version :: string
  arch :: string
  repo :: string
  desiredInstances :: int

record ASGRunnerStackProps =
  env :: "Environment option"
  stage :: ENVIRONMENT_STAGE
  licenseArn :: "string option"
  type :: RunnerType

subsection \<open>Files and strings\<close>

text \<open>
  \<^verbatim>\<open>readFileSync\<close> reads from the file system, a map from paths to contents, and throws
  for a path that is not there.
\<close>

type_synonym filesystem = "string \<rightharpoonup> string"

definition readFileSync :: "filesystem \<Rightarrow> string \<Rightarrow> error + string" where
  "readFileSync fs path = (case fs path of None \<Rightarrow> Inl (ENOENT path) | Some text \<Rightarrow> Inr text)"

text \<open>
  A template literal renders \<^verbatim>\<open>undefined\<close> as the text \<^verbatim>\<open>undefined\<close>;
  \<^verbatim>\<open>props.env?.region\<close> is \<^verbatim>\<open>undefined\<close> when there is no environment or no region in it.
\<close>

definition interpolate :: "string option \<Rightarrow> string" where
  "interpolate v = (case v of None \<Rightarrow> ''undefined'' | Some s \<Rightarrow> s)"

definition env_region :: "ASGRunnerStackProps \<Rightarrow> string option" where
  "env_region props = (case env props of None \<Rightarrow> None | Some e \<Rightarrow> region e)"

definition env_account :: "ASGRunnerStackProps \<Rightarrow> string option" where
  "env_account props = (case env props of None \<Rightarrow> None | Some e \<Rightarrow> account e)"

text \<open>
  \<^verbatim>\<open>String.prototype.replace\<close> with a string pattern replaces the first occurrence only,
  and expands in the replacement text the sequences \<^verbatim>\<open>$$\<close>, \<^verbatim>\<open>$&\<close>, a dollar with a
  backquote and a dollar with a quote (the match, the text before it, the text after it).
\<close>

fun split_first :: "string \<Rightarrow> string \<Rightarrow> (string \<times> string) option" where
  "split_first pat [] = (if pat = [] then Some ([], []) else None)"
| "split_first pat (c # cs) =
     (if take (length pat) (c # cs) = pat then Some ([], drop (length pat) (c # cs))
      else (case split_first pat cs of
              None \<Rightarrow> None
            | Some (pre, post) \<Rightarrow> Some (c # pre, post)))"

fun GetSubstitution :: "string \<Rightarrow> string \<Rightarrow> string \<Rightarrow> string \<Rightarrow> string" where
  "GetSubstitution matched pre post [] = []"
| "GetSubstitution matched pre post [c] = [c]"
| "GetSubstitution matched pre post (c # d # rest) =
     (if c = CHR ''$'' \<and> d = CHR ''$'' then CHR ''$'' # GetSubstitution matched pre post rest
      else if c = CHR ''$'' \<and> d = CHR ''&'' then matched @ GetSubstitution matched pre post rest
      else if c = CHR ''$'' \<and> d = CHR 0x60 then pre @ GetSubstitution matched pre post rest
      else if c = CHR ''$'' \<and> d = CHR 0x27 then post @ GetSubstitution matched pre post rest
      else c # GetSubstitution matched pre post (d # rest))"

definition replace_first :: "string \<Rightarrow> string \<Rightarrow> string \<Rightarrow> string" where
  "replace_first s pat replacement =
     (case split_first pat s of
        None \<Rightarrow> s
      | Some (pre, post) \<Rightarrow> pre @ GetSubstitution pat pre post replacement @ post)"

text \<open>\<^verbatim>\<open>version.split('.')[0]\<close>: the text before the first dot, all of it when there is none.\<close>

definition major_version :: "string \<Rightarrow> string" where
  "major_version v = takeWhile (\<lambda>c. c \<noteq> CHR ''.'') v"

subsection \<open>The user data of the shell-script platforms\<close>

definition LABEL_STAGE :: "ASGRunnerStackProps \<Rightarrow> string" where
  "LABEL_STAGE props = (if stage props = Release then ''release'' else ''test'')"

definition userData :: "filesystem \<Rightarrow> ASGRunnerStackProps \<Rightarrow> string \<Rightarrow> error + string" where
  "userData fs props setupScriptName =
     (case readFileSync fs (''./scripts/'' @ setupScriptName) of
        Inl e \<Rightarrow> Inl e
      | Inr script \<Rightarrow>
          Inr (''#!/bin/bash\<newline>LABEL_STAGE='' @ LABEL_STAGE props @
               ''\<newline>REPO='' @ repo (type props) @
               ''\<newline>REGION='' @ interpolate (env_region props) @ ''\<newline>'' @ script))"

subsection \<open>The switch on the platform\<close>

datatype WindowsVersion = WINDOWS_SERVER_2022_ENGLISH_FULL_BASE

datatype MachineImage =
    LookupMachineImage string "(string \<times> string list) list"
  | latestWindows WindowsVersion
  | latestAmazonLinux2
  | latestAmazonLinux2023
  | genericLinux "(string \<times> string) list"

text \<open>
  The four variables the switch assigns. \<^verbatim>\<open>machineImage\<close> is declared without a value.
\<close>

record locals =
  instanceType :: string
  machineImage :: "MachineImage option"
  userDataString :: string
  asgName :: string

definition initial_locals :: locals where
  "initial_locals = \<lparr>instanceType = [], machineImage = None, userDataString = [], asgName = []\<rparr>"

definition amiSearchString :: "ASGRunnerStackProps \<Rightarrow> string" where
  "amiSearchString props = ''amzn-ec2-macos-'' @ version (type props) @ ''*''"

definition macOSArchLookup :: "ASGRunnerStackProps \<Rightarrow> string" where
  "macOSArchLookup props =
     (if arch (type props) = ''arm'' then ''arm64_'' @ PlatformType_value (platform (type props))
      else ''x86_64_'' @ PlatformType_value (platform (type props)))"

text \<open>The block of \<^verbatim>\<open>case PlatformType.MAC\<close>.\<close>

definition case_MAC :: "filesystem \<Rightarrow> ASGRunnerStackProps \<Rightarrow> locals \<Rightarrow> error + locals" where
  "case_MAC fs props l =
     (case userData fs props ''setup-runner.sh'' of
        Inl e \<Rightarrow> Inl e
      | Inr text \<Rightarrow>
          Inr (l\<lparr>instanceType := (if arch (type props) = ''arm'' then ''mac2.metal'' else ''mac1.metal''),
                 machineImage := Some (LookupMachineImage (amiSearchString props)
                   [(''virtualization-type'', [''hvm'']),
                    (''root-device-type'', [''ebs'']),
                    (''architecture'', [macOSArchLookup props]),
                    (''owner-alias'', [''amazon''])]),
                 asgName := ''MacASG'',
                 userDataString := text\<rparr>))"

text \<open>The block of \<^verbatim>\<open>case PlatformType.WINDOWS\<close>.\<close>

definition case_WINDOWS :: "filesystem \<Rightarrow> ASGRunnerStackProps \<Rightarrow> locals \<Rightarrow> error + locals" where
  "case_WINDOWS fs props l =
     (case readFileSync fs ''./scripts/windows-runner-user-data.yaml'' of
        Inl e \<Rightarrow> Inl e
      | Inr yaml \<Rightarrow>
          Inr (l\<lparr>instanceType := ''m5zn.metal'',
                 asgName := ''WindowsASG'',
                 machineImage := Some (latestWindows WINDOWS_SERVER_2022_ENGLISH_FULL_BASE),
                 userDataString :=
                   replace_first
                     (replace_first
                        (replace_first yaml ''<STAGE>'' (LABEL_STAGE props))
                        ''<REPO>'' (repo (type props)))
                     ''<REGION>'' (case env_region props of None \<Rightarrow> [] | Some r \<Rightarrow> r)\<rparr>))"

text \<open>The block of \<^verbatim>\<open>default\<close>.\<close>

definition case_default :: "filesystem \<Rightarrow> ASGRunnerStackProps \<Rightarrow> locals \<Rightarrow> error + locals" where
  "case_default fs props l =
     (case userData fs props ''setup-linux-runner.sh'' of
        Inl e \<Rightarrow> Inl e
      | Inr text \<Rightarrow>
          Inr (l\<lparr>instanceType := (if arch (type props) = ''arm'' then ''c7g.large'' else ''c7a.large''),
                 asgName := ''LinuxASG'',
                 userDataString := text,
                 machineImage := Some
                   (if platform (type props) = AMAZONLINUX
                    then (if version (type props) = ''2'' then latestAmazonLinux2
                          else latestAmazonLinux2023)
                    else genericLinux
                      [(''us-east-2'', if arch (type props) = ''arm'' then ''ami-02f1e969ae0fdff65''
                                       else ''ami-097f74237291abc07''),
                       (''us-east-1'', if arch (type props) = ''arm'' then ''ami-0d3825b70fa928886''
                                       else ''ami-004f552bba0e5f64f'')])\<rparr>))"

text \<open>
  No block of the switch ends in \<^verbatim>\<open>break\<close>, so control entering at a label runs that block
  and every block below it: three blocks from MAC, two from WINDOWS, the default block alone
  from any other platform.
\<close>

definition and_then :: "error + 'a \<Rightarrow> ('a \<Rightarrow> error + 'b) \<Rightarrow> error + 'b" where
  "and_then r f = (case r of Inl e \<Rightarrow> Inl e | Inr x \<Rightarrow> f x)"

definition switch_platform :: "filesystem \<Rightarrow> ASGRunnerStackProps \<Rightarrow> locals \<Rightarrow> error + locals" where
  "switch_platform fs props l =
     (case platform (type props) of
        MAC \<Rightarrow> and_then (and_then (case_MAC fs props l) (case_WINDOWS fs props)) (case_default fs props)
      | WINDOWS \<Rightarrow> and_then (case_WINDOWS fs props l) (case_default fs props)
      | _ \<Rightarrow> case_default fs props l)"

subsection \<open>The resources of the stack\<close>

text \<open>
  The constructor hands its values to the constructs of the CDK library. The stack is
  the record of what each construct was given: the secret the role may read, the resource
  group, the launch template, the autoscaling group and the scheduled actions. The
  security group and the managed policies take no value of the input and are left out.
\<close>

datatype BlockDeviceVolume = ebs nat

record BlockDevice =
  deviceName :: string
  volume :: BlockDeviceVolume

record LaunchTemplate =
  ltName :: string
  requireImdsv2 :: bool
  lt_instanceType :: string
  keyPairName :: string
  lt_machineImage :: "MachineImage option"
  lt_userData :: string
  blockDevices :: "BlockDevice list"
  tenancy :: string
  licenseSpecifications :: "string list"

datatype ScalingProcess =
  HEALTH_CHECK | REPLACE_UNHEALTHY | AZ_REBALANCE | ALARM_NOTIFICATION | SCHEDULED_ACTIONS

record rollingUpdate =
  maxBatchSize :: nat
  minInstancesInService :: nat
  suspendProcesses :: "ScalingProcess list"
  waitOnResourceSignals :: bool

record AutoScalingGroup =
  asg_id :: string
  desiredCapacity :: int
  maxCapacity :: int
  minCapacity :: int
  healthCheck_grace :: nat
  updatePolicy :: rollingUpdate

text \<open>
  \<^verbatim>\<open>startTime\<close> is kept as the time value in milliseconds that \<^verbatim>\<open>toISOString\<close> renders.
\<close>

record CfnScheduledAction =
  sa_id :: string
  sa_autoScalingGroup :: string
  startTime :: int
  sa_desiredCapacity :: int

record ASGRunnerStack =
  secret_resources :: "string list"
  resourceGroupName :: string
  lt :: LaunchTemplate
  asg :: AutoScalingGroup
  scheduledActions :: "CfnScheduledAction list"

definition rootVolume :: BlockDevice where
  "rootVolume = \<lparr>deviceName = ''/dev/sda1'', volume = ebs 100\<rparr>"

subsection \<open>The checks of the library\<close>

text \<open>
  Three of the library calls throw on values that come from the input.

  \<^verbatim>\<open>Vpc.fromLookup\<close> (line 108) looks the VPC up under the account and the region of the
  stack, which are those of \<^verbatim>\<open>props.env\<close>, and throws unless both are given. It passes
  with the account and the region it used.
\<close>

definition Vpc_fromLookup :: "Environment \<Rightarrow> error + string \<times> string" where
  "Vpc_fromLookup e =
     (case account e of
        None \<Rightarrow> Inl (LibraryError ''Vpc.fromLookup'')
      | Some a \<Rightarrow>
     (case region e of
        None \<Rightarrow> Inl (LibraryError ''Vpc.fromLookup'')
      | Some r \<Rightarrow> Inr (a, r)))"

text \<open>
  \<^verbatim>\<open>new ec2.LaunchTemplate\<close> (line 188) asks the machine image, when it has one, for the
  image of the region of the stack. A \<^verbatim>\<open>genericLinux\<close> image reads its map at the region and
  throws when the map has no image there; the library answers for its own
  \<^verbatim>\<open>test-region\<close> without reading the map. The other images do not throw.
\<close>

fun getImage :: "MachineImage \<Rightarrow> string \<Rightarrow> error + unit" where
  "getImage (genericLinux amiMap) r =
     (if r = ''test-region'' then Inr ()
      else (case map_of amiMap r of
              None \<Rightarrow> Inl (LibraryError ''GenericLinuxImage.getImage'')
            | Some imageId \<Rightarrow>
                if imageId = [] then Inl (LibraryError ''GenericLinuxImage.getImage'')
                else Inr ()))"
| "getImage (LookupMachineImage n filters) r = Inr ()"
| "getImage (latestWindows v) r = Inr ()"
| "getImage latestAmazonLinux2 r = Inr ()"
| "getImage latestAmazonLinux2023 r = Inr ()"

definition LaunchTemplate_getImage :: "MachineImage option \<Rightarrow> string \<Rightarrow> error + unit" where
  "LaunchTemplate_getImage img r = (case img of None \<Rightarrow> Inr () | Some i \<Rightarrow> getImage i r)"

text \<open>
  \<^verbatim>\<open>new autoscaling.AutoScalingGroup\<close> (line 224) throws unless the minimum, the desired and
  the maximum capacity are in this order.
\<close>

definition AutoScalingGroup_capacity :: "int \<Rightarrow> int \<Rightarrow> int \<Rightarrow> error + unit" where
  "AutoScalingGroup_capacity minimum desired maximum =
     (if maximum < minimum \<or> desired < minimum \<or> maximum < desired
      then Inl (LibraryError ''AutoScalingGroup'')
      else Inr ())"

subsection \<open>The constructor\<close>

text \<open>
  \<open>now\<close> is the clock reading of \<^verbatim>\<open>new Date().getTime()\<close>, in milliseconds. The switch runs
  first, then the test of the environment, then the constructs in the order of the source,
  each with its check.
\<close>

definition new_ASGRunnerStack ::
    "filesystem \<Rightarrow> int \<Rightarrow> ASGRunnerStackProps \<Rightarrow> error + ASGRunnerStack" where
  "new_ASGRunnerStack fs now props =
     (case switch_platform fs props initial_locals of
        Inl e \<Rightarrow> Inl e
      | Inr l \<Rightarrow>
     (case env props of
        None \<Rightarrow> Inl (Error ''Runner environment is undefined!'')
      | Some e \<Rightarrow>
     (case Vpc_fromLookup e of
        Inl e \<Rightarrow> Inl e
      | Inr (stack_account, stack_region) \<Rightarrow>
     (case LaunchTemplate_getImage (machineImage l) stack_region of
        Inl e \<Rightarrow> Inl e
      | Inr _ \<Rightarrow>
     (case AutoScalingGroup_capacity 0 (desiredInstances (type props))
             (desiredInstances (type props)) of
        Inl e \<Rightarrow> Inl e
      | Inr _ \<Rightarrow>
          Inr
            \<lparr>secret_resources =
               [''arn:aws:secretsmanager:'' @ interpolate (env_region props) @ '':'' @
                interpolate (env_account props) @ '':secret:'' @ repo (type props) @
                ''-runner-reg-key*''],
             resourceGroupName =
               repo (type props) @ ''-'' @ PlatformType_value (platform (type props)) @ ''-'' @
               major_version (version (type props)) @ ''-'' @ arch (type props) @ ''HostGroup'',
             lt = \<lparr>ltName = asgName l @ ''LaunchTemplate'',
                    requireImdsv2 = True,
                    lt_instanceType = instanceType l,
                    keyPairName = asgName l @ ''KeyPair'',
                    lt_machineImage = machineImage l,
                    lt_userData = userDataString l,
                    blockDevices = [rootVolume],
                    tenancy = ''host'',
                    licenseSpecifications =
                      (case licenseArn props of
                         None \<Rightarrow> []
                       | Some a \<Rightarrow> if a = [] then [] else [a])\<rparr>,
             asg = \<lparr>asg_id = asgName l,
                     desiredCapacity = desiredInstances (type props),
                     maxCapacity = desiredInstances (type props),
                     minCapacity = 0,
                     healthCheck_grace = 3600,
                     updatePolicy =
                       \<lparr>maxBatchSize = 1,
                        minInstancesInService = 0,
                        suspendProcesses =
                          [HEALTH_CHECK, REPLACE_UNHEALTHY, AZ_REBALANCE, ALARM_NOTIFICATION,
                           SCHEDULED_ACTIONS],
                        waitOnResourceSignals = False\<rparr>\<rparr>,
             scheduledActions =
               (if stage props = Beta
                then [\<lparr>sa_id = ''SpinDownBetaInstances'',
                       sa_autoScalingGroup = asgName l,
                       startTime = now + 1 * 24 * 60 * 60 * 1000,
                       sa_desiredCapacity = 0\<rparr>]
                else [])\<rparr>)))))"

subsection \<open>Scenarios\<close>

text \<open>
  Concrete inputs: a file system holding the three templates, a clock reading, and the
  properties of a few fleets. The Windows fleet is the scenario of the specification.
\<close>

definition scripts :: filesystem where
  "scripts =
     [''./scripts/setup-runner.sh'' \<mapsto> ''./configure-mac-runner\<newline>'',
      ''./scripts/setup-linux-runner.sh'' \<mapsto> ''./configure-linux-runner\<newline>'',
      ''./scripts/windows-runner-user-data.yaml'' \<mapsto>
        ''runAs: admin\<newline>labels: <STAGE>\<newline>repo: <REPO>\<newline>region: <REGION>\<newline>'']"

definition at_resolution :: int where
  "at_resolution = 1730624400000"

definition mac_arm_scenario :: ASGRunnerStackProps where
  "mac_arm_scenario =
     \<lparr>env = Some \<lparr>account = Some ''123'', region = Some ''us-east-1''\<rparr>, stage = Release,
      licenseArn = None,
      type = \<lparr>platform = MAC, version = ''14'', arch = ''arm'', repo = ''finch'',
              desiredInstances = 2\<rparr>\<rparr>"

definition windows_scenario :: ASGRunnerStackProps where
  "windows_scenario =
     \<lparr>env = Some \<lparr>account = Some ''123'', region = Some ''us-east-1''\<rparr>, stage = Release,
      licenseArn = None,
      type = \<lparr>platform = WINDOWS, version = ''2022'', arch = ''x86'', repo = ''myrepo'',
              desiredInstances = 3\<rparr>\<rparr>"

definition amazonlinux_scenario :: "string \<Rightarrow> ENVIRONMENT_STAGE \<Rightarrow> ASGRunnerStackProps" where
  "amazonlinux_scenario v s =
     \<lparr>env = Some \<lparr>account = Some ''123'', region = Some ''us-east-1''\<rparr>, stage = s,
      licenseArn = None,
      type = \<lparr>platform = AMAZONLINUX, version = v, arch = ''arm'', repo = ''foo'',
              desiredInstances = 0\<rparr>\<rparr>"

definition riscv_scenario :: ASGRunnerStackProps where
  "riscv_scenario =
     \<lparr>env = Some \<lparr>account = Some ''123'', region = Some ''us-east-1''\<rparr>, stage = Release,
      licenseArn = None,
      type = \<lparr>platform = LINUX_OTHER, version = ''40'', arch = ''riscv64'', repo = ''finch'',
              desiredInstances = 1\<rparr>\<rparr>"

definition empty_env_scenario :: ASGRunnerStackProps where
  "empty_env_scenario =
     \<lparr>env = Some \<lparr>account = None, region = None\<rparr>, stage = Release,
      licenseArn = None,
      type = \<lparr>platform = AMAZONLINUX, version = ''2023'', arch = ''arm'', repo = ''foo'',
              desiredInstances = 1\<rparr>\<rparr>"

section \<open>Properties of the environment configuration\<close>

lemma missing_keys_unfold:
  "missing_keys c =
     (if c ''envPipeline'' = None then [''envPipeline''] else []) @
     (if c ''envBeta'' = None then [''envBeta''] else []) @
     (if c ''envProd'' = None then [''envProd''] else []) @
     (if c ''envRelease'' = None then [''envRelease''] else [])"
  by (simp add: missing_keys_def required_keys_def)

text \<open>
  C4. A configuration without \<^verbatim>\<open>envDev\<close> that leaves out at least one of
  \<^verbatim>\<open>envPipeline\<close>, \<^verbatim>\<open>envBeta\<close>, \<^verbatim>\<open>envProd\<close>, \<^verbatim>\<open>envRelease\<close> is rejected, and the error names
  the first missing key in that check order and no other.
\<close>

theorem non_dev_missing_key_fails_fast:
  assumes "configFile ''envDev'' = None"
    and "missing_keys configFile \<noteq> []"
  shows "new_EnvConfigClass configFile = Inl (must_be_specified (hd (missing_keys configFile)))"
  using assms
  by (cases "configFile ''envPipeline''"; cases "configFile ''envBeta''";
      cases "configFile ''envProd''"; cases "configFile ''envRelease''";
      simp add: missing_keys_unfold new_EnvConfigClass_def must_be_specified_def)

theorem non_dev_missing_key_fails_fast_witness:
  "[''envPipeline'' \<mapsto> \<lparr>account = Some ''111'', region = Some ''us-west-2''\<rparr>,
    ''envRelease'' \<mapsto> \<lparr>account = Some ''444'', region = Some ''us-west-2''\<rparr>] ''envDev'' = None
   \<and> missing_keys
        [''envPipeline'' \<mapsto> \<lparr>account = Some ''111'', region = Some ''us-west-2''\<rparr>,
         ''envRelease'' \<mapsto> \<lparr>account = Some ''444'', region = Some ''us-west-2''\<rparr>]
       = [''envBeta'', ''envProd'']
   \<and> new_EnvConfigClass
        [''envPipeline'' \<mapsto> \<lparr>account = Some ''111'', region = Some ''us-west-2''\<rparr>,
         ''envRelease'' \<mapsto> \<lparr>account = Some ''444'', region = Some ''us-west-2''\<rparr>]
       = Inl (Error ''Error: envBeta must be specified.'')"
  using non_dev_missing_key_fails_fast
    [of "[''envPipeline'' \<mapsto> \<lparr>account = Some ''111'', region = Some ''us-west-2''\<rparr>,
          ''envRelease'' \<mapsto> \<lparr>account = Some ''444'', region = Some ''us-west-2''\<rparr>]"]
  by (simp add: missing_keys_unfold must_be_specified_def)

text \<open>
  C5. A configuration with \<^verbatim>\<open>envDev\<close> present resolves, with \<^verbatim>\<open>isDev\<close> true, the pipeline
  and beta environments both the \<^verbatim>\<open>envDev\<close> value, and no prod or release environment.
  The result is a function of the \<^verbatim>\<open>envDev\<close> value alone: two configurations that agree on
  it resolve alike, whatever their other keys hold.
\<close>

theorem dev_config_short_circuits:
  assumes "configFile ''envDev'' = Some dev"
  shows "new_EnvConfigClass configFile =
           Inr \<lparr>isDev = Some True, envPipeline = Some dev, envBeta = Some dev,
                envProd = None, envRelease = None\<rparr>
         \<and> (\<forall>other. other ''envDev'' = Some dev \<longrightarrow>
               new_EnvConfigClass other = new_EnvConfigClass configFile)"
  using assms by (simp add: new_EnvConfigClass_def)

theorem dev_config_short_circuits_witness:
  "[''envDev'' \<mapsto> \<lparr>account = Some ''123'', region = Some ''us-east-1''\<rparr>] ''envDev''
     = Some \<lparr>account = Some ''123'', region = Some ''us-east-1''\<rparr>
   \<and> new_EnvConfigClass [''envDev'' \<mapsto> \<lparr>account = Some ''123'', region = Some ''us-east-1''\<rparr>]
     = Inr \<lparr>isDev = Some True,
            envPipeline = Some \<lparr>account = Some ''123'', region = Some ''us-east-1''\<rparr>,
            envBeta = Some \<lparr>account = Some ''123'', region = Some ''us-east-1''\<rparr>,
            envProd = None, envRelease = None\<rparr>
   \<and> new_EnvConfigClass
        [''envDev'' \<mapsto> \<lparr>account = Some ''123'', region = Some ''us-east-1''\<rparr>,
         ''envBeta'' \<mapsto> \<lparr>account = Some ''999'', region = None\<rparr>]
     = new_EnvConfigClass [''envDev'' \<mapsto> \<lparr>account = Some ''123'', region = Some ''us-east-1''\<rparr>]"
  using dev_config_short_circuits
    [of "[''envDev'' \<mapsto> \<lparr>account = Some ''123'', region = Some ''us-east-1''\<rparr>]"
        "\<lparr>account = Some ''123'', region = Some ''us-east-1''\<rparr>"]
  by simp

section \<open>Properties of the runner stack\<close>

subsection \<open>What each step returns\<close>

lemma case_default_Inr:
  assumes "case_default fs props l = Inr l'"
  shows "instanceType l' = (if arch (type props) = ''arm'' then ''c7g.large'' else ''c7a.large'')"
    and "asgName l' = ''LinuxASG''"
    and "machineImage l' = Some
           (if platform (type props) = AMAZONLINUX
            then (if version (type props) = ''2'' then latestAmazonLinux2
                  else latestAmazonLinux2023)
            else genericLinux
              [(''us-east-2'', if arch (type props) = ''arm'' then ''ami-02f1e969ae0fdff65''
                               else ''ami-097f74237291abc07''),
               (''us-east-1'', if arch (type props) = ''arm'' then ''ami-0d3825b70fa928886''
                               else ''ami-004f552bba0e5f64f'')])"
  using assms
  by (auto simp: case_default_def userData_def readFileSync_def split: option.splits)

lemma switch_platform_default:
  "platform (type props) \<noteq> MAC \<Longrightarrow> platform (type props) \<noteq> WINDOWS \<Longrightarrow>
   switch_platform fs props l = case_default fs props l"
  by (cases "platform (type props)") (simp_all add: switch_platform_def)

lemma switch_platform_readable:
  assumes "fs ''./scripts/setup-runner.sh'' = Some s1"
    and "fs ''./scripts/windows-runner-user-data.yaml'' = Some s2"
    and "fs ''./scripts/setup-linux-runner.sh'' = Some s3"
  shows "\<not> isl (switch_platform fs props l)"
  using assms
  by (cases "platform (type props)")
     (simp_all add: switch_platform_def and_then_def case_MAC_def case_WINDOWS_def
        case_default_def userData_def readFileSync_def)

lemma new_ASGRunnerStack_Inr:
  assumes "new_ASGRunnerStack fs now props = Inr p"
  obtains l where "switch_platform fs props initial_locals = Inr l"
    and "env props \<noteq> None"
    and "lt_instanceType (lt p) = instanceType l"
    and "lt_machineImage (lt p) = machineImage l"
    and "lt_userData (lt p) = userDataString l"
    and "asg_id (asg p) = asgName l"
    and "blockDevices (lt p) = [rootVolume]"
    and "desiredCapacity (asg p) = desiredInstances (type props)"
    and "maxCapacity (asg p) = desiredInstances (type props)"
    and "minCapacity (asg p) = 0"
    and "scheduledActions p =
           (if stage props = Beta
            then [\<lparr>sa_id = ''SpinDownBetaInstances'',
                   sa_autoScalingGroup = asgName l,
                   startTime = now + 86400000,
                   sa_desiredCapacity = 0\<rparr>]
            else [])"
  using assms
  by (auto simp: new_ASGRunnerStack_def split: sum.splits option.splits prod.splits if_splits)

lemma library_checks_raise_library_errors:
  "Vpc_fromLookup e \<noteq> Inl (Error m)"
  "LaunchTemplate_getImage img r \<noteq> Inl (Error m)"
  "AutoScalingGroup_capacity minimum desired maximum \<noteq> Inl (Error m)"
proof -
  show "Vpc_fromLookup e \<noteq> Inl (Error m)"
    by (simp add: Vpc_fromLookup_def split: option.splits)
  have "getImage i r \<noteq> Inl (Error m)" for i
    by (cases i) (simp_all split: option.splits)
  then show "LaunchTemplate_getImage img r \<noteq> Inl (Error m)"
    by (simp add: LaunchTemplate_getImage_def split: option.splits)
  show "AutoScalingGroup_capacity minimum desired maximum \<noteq> Inl (Error m)"
    by (simp add: AutoScalingGroup_capacity_def)
qed

subsection \<open>The scenarios, evaluated\<close>

lemmas run_defs =
  new_ASGRunnerStack_def switch_platform_def and_then_def case_MAC_def case_WINDOWS_def
  case_default_def userData_def readFileSync_def scripts_def initial_locals_def
  interpolate_def env_region_def env_account_def LABEL_STAGE_def replace_first_def
  amiSearchString_def macOSArchLookup_def major_version_def rootVolume_def at_resolution_def
  Vpc_fromLookup_def LaunchTemplate_getImage_def AutoScalingGroup_capacity_def

lemma riscv_ok:
  "new_ASGRunnerStack scripts at_resolution riscv_scenario =
     Inr (projr (new_ASGRunnerStack scripts at_resolution riscv_scenario))"
  by (simp add: run_defs riscv_scenario_def)

lemma amazonlinux_ok:
  "new_ASGRunnerStack scripts at_resolution (amazonlinux_scenario ''2023'' s) =
     Inr (projr (new_ASGRunnerStack scripts at_resolution (amazonlinux_scenario ''2023'' s)))"
  by (simp add: run_defs amazonlinux_scenario_def)

lemma amazonlinux2_ok:
  "new_ASGRunnerStack scripts at_resolution (amazonlinux_scenario ''2'' s) =
     Inr (projr (new_ASGRunnerStack scripts at_resolution (amazonlinux_scenario ''2'' s)))"
  by (simp add: run_defs amazonlinux_scenario_def)

subsection \<open>The platform dispatch\<close>

text \<open>
  C1. A descriptor with platform MAC and arch \<^verbatim>\<open>arm\<close> is to resolve to the shape
  \<^verbatim>\<open>mac2.metal\<close>, a lookup of \<^verbatim>\<open>amzn-ec2-macos-<version>*\<close> filtered on \<^verbatim>\<open>arm64_mac\<close>, and
  user data built from \<^verbatim>\<open>setup-runner.sh\<close>. The block of the MAC label computes exactly
  that, but control then runs on through the two blocks below it, and the stack is built
  from what the default block leaves: the shape \<^verbatim>\<open>c7g.large\<close>, the region map of the
  generic Linux image, and user data built from \<^verbatim>\<open>setup-linux-runner.sh\<close>.
\<close>

theorem mac_arm_resolves_to_linux_plan:
  "case_MAC scripts mac_arm_scenario initial_locals =
     Inr \<lparr>instanceType = ''mac2.metal'',
          machineImage = Some (LookupMachineImage ''amzn-ec2-macos-14*''
            [(''virtualization-type'', [''hvm'']), (''root-device-type'', [''ebs'']),
             (''architecture'', [''arm64_mac'']), (''owner-alias'', [''amazon''])]),
          userDataString = ''#!/bin/bash\<newline>LABEL_STAGE=release\<newline>REPO=finch\<newline>REGION=us-east-1\<newline>./configure-mac-runner\<newline>'',
          asgName = ''MacASG''\<rparr>
   \<and> \<not> isl (new_ASGRunnerStack scripts at_resolution mac_arm_scenario)
   \<and> lt_instanceType (lt (projr (new_ASGRunnerStack scripts at_resolution mac_arm_scenario)))
       = ''c7g.large''
   \<and> lt_machineImage (lt (projr (new_ASGRunnerStack scripts at_resolution mac_arm_scenario)))
       = Some (genericLinux [(''us-east-2'', ''ami-02f1e969ae0fdff65''),
                             (''us-east-1'', ''ami-0d3825b70fa928886'')])
   \<and> lt_userData (lt (projr (new_ASGRunnerStack scripts at_resolution mac_arm_scenario)))
       = ''#!/bin/bash\<newline>LABEL_STAGE=release\<newline>REPO=finch\<newline>REGION=us-east-1\<newline>./configure-linux-runner\<newline>''
   \<and> asg_id (asg (projr (new_ASGRunnerStack scripts at_resolution mac_arm_scenario)))
       = ''LinuxASG''"
  by (simp add: run_defs mac_arm_scenario_def)

text \<open>
  C2. A WINDOWS descriptor at stage Release is to resolve to the shape \<^verbatim>\<open>m5zn.metal\<close>, the
  name \<^verbatim>\<open>WindowsASG\<close>, the Windows Server 2022 image and the YAML template with its three
  placeholders substituted. The block of the WINDOWS label computes that, and control
  then runs on through the default block: the stack of the specification's scenario has
  the shape \<^verbatim>\<open>c7a.large\<close>, the name \<^verbatim>\<open>LinuxASG\<close>, the region map of the generic Linux image
  and the shell user data of \<^verbatim>\<open>setup-linux-runner.sh\<close>.
\<close>

theorem windows_resolves_to_linux_plan:
  "case_WINDOWS scripts windows_scenario initial_locals =
     Inr \<lparr>instanceType = ''m5zn.metal'',
          machineImage = Some (latestWindows WINDOWS_SERVER_2022_ENGLISH_FULL_BASE),
          userDataString = ''runAs: admin\<newline>labels: release\<newline>repo: myrepo\<newline>region: us-east-1\<newline>'',
          asgName = ''WindowsASG''\<rparr>
   \<and> \<not> isl (new_ASGRunnerStack scripts at_resolution windows_scenario)
   \<and> lt_instanceType (lt (projr (new_ASGRunnerStack scripts at_resolution windows_scenario)))
       = ''c7a.large''
   \<and> asg_id (asg (projr (new_ASGRunnerStack scripts at_resolution windows_scenario)))
       = ''LinuxASG''
   \<and> lt_machineImage (lt (projr (new_ASGRunnerStack scripts at_resolution windows_scenario)))
       = Some (genericLinux [(''us-east-2'', ''ami-097f74237291abc07''),
                             (''us-east-1'', ''ami-004f552bba0e5f64f'')])
   \<and> lt_userData (lt (projr (new_ASGRunnerStack scripts at_resolution windows_scenario)))
       = ''#!/bin/bash\<newline>LABEL_STAGE=release\<newline>REPO=myrepo\<newline>REGION=us-east-1\<newline>./configure-linux-runner\<newline>''"
  by (simp add: run_defs windows_scenario_def)

text \<open>
  C3, as stated: a descriptor whose platform and arch no row of the dispatch table names
  is to be refused with an unsupported-platform error, never given the generic Linux
  defaults. The fleet below has the fourth platform and the arch \<^verbatim>\<open>riscv64\<close>; no case
  label and no comparison of the source names either, and only the default block takes
  it. The constructor returns a stack for it, with the shape and the images of an x86
  Linux fleet.
\<close>

theorem unlisted_combination_counterexample:
  "\<not> isl (new_ASGRunnerStack scripts at_resolution riscv_scenario)
   \<and> lt_instanceType (lt (projr (new_ASGRunnerStack scripts at_resolution riscv_scenario)))
       = ''c7a.large''
   \<and> asg_id (asg (projr (new_ASGRunnerStack scripts at_resolution riscv_scenario))) = ''LinuxASG''
   \<and> lt_machineImage (lt (projr (new_ASGRunnerStack scripts at_resolution riscv_scenario)))
       = Some (genericLinux [(''us-east-2'', ''ami-097f74237291abc07''),
                             (''us-east-1'', ''ami-004f552bba0e5f64f'')])"
  by (simp add: run_defs riscv_scenario_def)

text \<open>
  C3, amended. A descriptor whose platform is neither MAC nor WINDOWS is taken by the
  default block, whatever its platform and arch: every stack the constructor returns for
  it has the name \<^verbatim>\<open>LinuxASG\<close>, the shape \<^verbatim>\<open>c7g.large\<close> for arch \<^verbatim>\<open>arm\<close> and \<^verbatim>\<open>c7a.large\<close> for
  any other arch, and, unless the platform is AMAZONLINUX, the region map of the generic
  Linux image.
\<close>

theorem default_branch_takes_every_other_platform:
  assumes "platform (type props) \<noteq> MAC" and "platform (type props) \<noteq> WINDOWS"
    and "new_ASGRunnerStack fs now props = Inr p"
  shows "asg_id (asg p) = ''LinuxASG''
       \<and> lt_instanceType (lt p) =
           (if arch (type props) = ''arm'' then ''c7g.large'' else ''c7a.large'')
       \<and> (platform (type props) \<noteq> AMAZONLINUX \<longrightarrow>
            lt_machineImage (lt p) = Some (genericLinux
              [(''us-east-2'', if arch (type props) = ''arm'' then ''ami-02f1e969ae0fdff65''
                               else ''ami-097f74237291abc07''),
               (''us-east-1'', if arch (type props) = ''arm'' then ''ami-0d3825b70fa928886''
                               else ''ami-004f552bba0e5f64f'')]))"
proof -
  from assms(3) obtain l where sw: "switch_platform fs props initial_locals = Inr l"
    and eqs: "lt_instanceType (lt p) = instanceType l" "lt_machineImage (lt p) = machineImage l"
      "asg_id (asg p) = asgName l"
    by (rule new_ASGRunnerStack_Inr)
  from sw assms(1,2) have d: "case_default fs props initial_locals = Inr l"
    by (simp add: switch_platform_default)
  have "asg_id (asg p) = ''LinuxASG''"
    using eqs case_default_Inr(2)[OF d] by simp
  moreover have "lt_instanceType (lt p) =
          (if arch (type props) = ''arm'' then ''c7g.large'' else ''c7a.large'')"
    using eqs case_default_Inr(1)[OF d] by simp
  moreover have "lt_machineImage (lt p) = Some (genericLinux
              [(''us-east-2'', if arch (type props) = ''arm'' then ''ami-02f1e969ae0fdff65''
                               else ''ami-097f74237291abc07''),
               (''us-east-1'', if arch (type props) = ''arm'' then ''ami-0d3825b70fa928886''
                               else ''ami-004f552bba0e5f64f'')])"
    if "platform (type props) \<noteq> AMAZONLINUX"
    using that eqs case_default_Inr(3)[OF d] by simp
  ultimately show ?thesis by blast
qed

theorem default_branch_takes_every_other_platform_witness:
  "platform (type riscv_scenario) \<noteq> MAC \<and> platform (type riscv_scenario) \<noteq> WINDOWS
   \<and> platform (type riscv_scenario) \<noteq> AMAZONLINUX
   \<and> arch (type riscv_scenario) \<noteq> ''arm''
   \<and> \<not> isl (new_ASGRunnerStack scripts at_resolution riscv_scenario)
   \<and> asg_id (asg (projr (new_ASGRunnerStack scripts at_resolution riscv_scenario))) = ''LinuxASG''
   \<and> lt_instanceType (lt (projr (new_ASGRunnerStack scripts at_resolution riscv_scenario)))
       = ''c7a.large''
   \<and> lt_machineImage (lt (projr (new_ASGRunnerStack scripts at_resolution riscv_scenario)))
       = Some (genericLinux [(''us-east-2'', ''ami-097f74237291abc07''),
                             (''us-east-1'', ''ami-004f552bba0e5f64f'')])"
proof -
  have a: "platform (type riscv_scenario) \<noteq> MAC" "platform (type riscv_scenario) \<noteq> WINDOWS"
    by (simp_all add: riscv_scenario_def)
  have b: "platform (type riscv_scenario) \<noteq> AMAZONLINUX" "arch (type riscv_scenario) \<noteq> ''arm''"
    by (simp_all add: riscv_scenario_def)
  have c: "\<not> isl (new_ASGRunnerStack scripts at_resolution riscv_scenario)"
    using riscv_ok by (metis sum.disc(2))
  from default_branch_takes_every_other_platform[OF a riscv_ok] a b c
  show ?thesis by simp
qed

text \<open>
  C6. For a descriptor with platform AMAZONLINUX, the image of every stack the
  constructor returns is the latest Amazon Linux 2 exactly when the version is the string
  \<^verbatim>\<open>2\<close>, and the latest Amazon Linux 2023 for every other version.
\<close>

theorem amazonlinux_image_follows_version:
  assumes "platform (type props) = AMAZONLINUX"
    and "new_ASGRunnerStack fs now props = Inr p"
  shows "lt_machineImage (lt p) =
           Some (if version (type props) = ''2'' then latestAmazonLinux2
                 else latestAmazonLinux2023)
       \<and> (lt_machineImage (lt p) = Some latestAmazonLinux2 \<longleftrightarrow> version (type props) = ''2'')"
proof -
  from assms(2) obtain l where l: "switch_platform fs props initial_locals = Inr l"
    and eq: "lt_machineImage (lt p) = machineImage l"
    by (rule new_ASGRunnerStack_Inr)
  from l assms(1) have "case_default fs props initial_locals = Inr l"
    by (simp add: switch_platform_default)
  from case_default_Inr(3)[OF this] assms(1) eq
  have "lt_machineImage (lt p) =
          Some (if version (type props) = ''2'' then latestAmazonLinux2
                else latestAmazonLinux2023)"
    by simp
  then show ?thesis by simp
qed

theorem amazonlinux_image_follows_version_witness:
  "platform (type (amazonlinux_scenario ''2'' Release)) = AMAZONLINUX
   \<and> \<not> isl (new_ASGRunnerStack scripts at_resolution (amazonlinux_scenario ''2'' Release))
   \<and> lt_machineImage (lt (projr (new_ASGRunnerStack scripts at_resolution
        (amazonlinux_scenario ''2'' Release)))) = Some latestAmazonLinux2
   \<and> platform (type (amazonlinux_scenario ''2023'' Release)) = AMAZONLINUX
   \<and> \<not> isl (new_ASGRunnerStack scripts at_resolution (amazonlinux_scenario ''2023'' Release))
   \<and> lt_machineImage (lt (projr (new_ASGRunnerStack scripts at_resolution
        (amazonlinux_scenario ''2023'' Release)))) = Some latestAmazonLinux2023"
proof -
  have p: "platform (type (amazonlinux_scenario v Release)) = AMAZONLINUX" for v
    by (simp add: amazonlinux_scenario_def)
  have v: "version (type (amazonlinux_scenario v Release)) = v" for v
    by (simp add: amazonlinux_scenario_def)
  have ok: "\<not> isl (new_ASGRunnerStack scripts at_resolution (amazonlinux_scenario ''2'' Release))"
    "\<not> isl (new_ASGRunnerStack scripts at_resolution (amazonlinux_scenario ''2023'' Release))"
    using amazonlinux2_ok[of Release] amazonlinux_ok[of Release] by (metis sum.disc(2))+
  from amazonlinux_image_follows_version[OF p amazonlinux2_ok[of Release]]
       amazonlinux_image_follows_version[OF p amazonlinux_ok[of Release]] ok
  show ?thesis
    by (simp add: p v)
qed

subsection \<open>What every stack has\<close>

text \<open>
  C7. Whatever the platform, the arch and the version, a stack the constructor returns
  has one block device, the root volume \<^verbatim>\<open>/dev/sda1\<close> of 100 GiB.
\<close>

theorem root_volume_is_100_GiB:
  assumes "new_ASGRunnerStack fs now props = Inr p"
  shows "blockDevices (lt p) = [\<lparr>deviceName = ''/dev/sda1'', volume = ebs 100\<rparr>]"
  using assms by (auto elim!: new_ASGRunnerStack_Inr simp: rootVolume_def)

theorem root_volume_is_100_GiB_witness:
  "\<not> isl (new_ASGRunnerStack scripts at_resolution riscv_scenario)
   \<and> blockDevices (lt (projr (new_ASGRunnerStack scripts at_resolution riscv_scenario)))
       = [\<lparr>deviceName = ''/dev/sda1'', volume = ebs 100\<rparr>]"
  using root_volume_is_100_GiB[OF riscv_ok] riscv_ok
  by (metis sum.disc(2))

text \<open>
  C10. In a stack the constructor returns, the autoscaling group has its desired and its
  maximum capacity both equal to \<^verbatim>\<open>desiredInstances\<close> of the descriptor, and its minimum
  capacity 0.
\<close>

theorem capacity_is_bounded_by_desired_instances:
  assumes "new_ASGRunnerStack fs now props = Inr p"
  shows "desiredCapacity (asg p) = desiredInstances (type props)
       \<and> maxCapacity (asg p) = desiredInstances (type props)
       \<and> minCapacity (asg p) = 0"
  using assms by (auto elim!: new_ASGRunnerStack_Inr)

theorem capacity_is_bounded_by_desired_instances_witness:
  "\<not> isl (new_ASGRunnerStack scripts at_resolution riscv_scenario)
   \<and> desiredInstances (type riscv_scenario) = 1
   \<and> desiredCapacity (asg (projr (new_ASGRunnerStack scripts at_resolution riscv_scenario))) = 1
   \<and> maxCapacity (asg (projr (new_ASGRunnerStack scripts at_resolution riscv_scenario))) = 1
   \<and> minCapacity (asg (projr (new_ASGRunnerStack scripts at_resolution riscv_scenario))) = 0"
proof -
  have d: "desiredInstances (type riscv_scenario) = 1"
    by (simp add: riscv_scenario_def)
  from capacity_is_bounded_by_desired_instances[OF riscv_ok] riscv_ok d
  show ?thesis by (metis sum.disc(2))
qed

text \<open>
  C8. At stage Beta the stack has exactly one scheduled action, which sets the desired
  capacity to 0 and starts 24 hours after the clock reading taken at resolution; at any
  other stage, Release among them, it has none.
\<close>

theorem beta_alone_schedules_spin_down:
  assumes "new_ASGRunnerStack fs now props = Inr p"
  shows "(stage props = Beta \<longrightarrow>
            (\<exists>a. scheduledActions p = [a] \<and> sa_desiredCapacity a = 0 \<and>
                 startTime a = now + 24 * 60 * 60 * 1000))
       \<and> (stage props \<noteq> Beta \<longrightarrow> scheduledActions p = [])"
  using assms by (auto elim!: new_ASGRunnerStack_Inr)

theorem beta_alone_schedules_spin_down_witness:
  "stage (amazonlinux_scenario ''2023'' Beta) = Beta
   \<and> \<not> isl (new_ASGRunnerStack scripts at_resolution (amazonlinux_scenario ''2023'' Beta))
   \<and> (\<exists>a. scheduledActions (projr (new_ASGRunnerStack scripts at_resolution
              (amazonlinux_scenario ''2023'' Beta))) = [a]
          \<and> sa_desiredCapacity a = 0 \<and> startTime a = at_resolution + 24 * 60 * 60 * 1000)
   \<and> stage (amazonlinux_scenario ''2023'' Release) \<noteq> Beta
   \<and> \<not> isl (new_ASGRunnerStack scripts at_resolution (amazonlinux_scenario ''2023'' Release))
   \<and> scheduledActions (projr (new_ASGRunnerStack scripts at_resolution
        (amazonlinux_scenario ''2023'' Release))) = []"
proof -
  have s: "stage (amazonlinux_scenario ''2023'' Beta) = Beta"
    "stage (amazonlinux_scenario ''2023'' Release) \<noteq> Beta"
    by (simp_all add: amazonlinux_scenario_def)
  from beta_alone_schedules_spin_down[OF amazonlinux_ok, of Beta]
       beta_alone_schedules_spin_down[OF amazonlinux_ok, of Release]
       amazonlinux_ok[of Beta] amazonlinux_ok[of Release] s
  show ?thesis by (metis sum.disc(2))
qed

subsection \<open>The test of the environment\<close>

text \<open>
  C9, as stated: the constructor is to raise its environment error for every environment
  that lacks a region or an account. The environment below is an object with neither;
  the constructor does not raise that error for it.
\<close>

theorem env_without_region_or_account_counterexample:
  "env empty_env_scenario = Some \<lparr>account = None, region = None\<rparr>
   \<and> new_ASGRunnerStack scripts at_resolution empty_env_scenario
       \<noteq> Inl (Error ''Runner environment is undefined!'')"
  by (simp add: run_defs empty_env_scenario_def)

text \<open>
  C9, amended. With the three templates readable, the constructor raises
  \<^verbatim>\<open>Runner environment is undefined!\<close> exactly when no environment is supplied.
\<close>

theorem raises_exactly_when_env_undefined:
  assumes "fs ''./scripts/setup-runner.sh'' = Some s1"
    and "fs ''./scripts/windows-runner-user-data.yaml'' = Some s2"
    and "fs ''./scripts/setup-linux-runner.sh'' = Some s3"
  shows "new_ASGRunnerStack fs now props = Inl (Error ''Runner environment is undefined!'')
           \<longleftrightarrow> env props = None"
proof -
  have sw: "\<not> isl (switch_platform fs props initial_locals)"
    using assms by (rule switch_platform_readable)
  then obtain l where "switch_platform fs props initial_locals = Inr l"
    by (cases "switch_platform fs props initial_locals") simp_all
  then show ?thesis
    using library_checks_raise_library_errors
    by (auto simp: new_ASGRunnerStack_def split: option.splits sum.splits prod.splits)
qed

theorem raises_exactly_when_env_undefined_witness:
  "new_ASGRunnerStack scripts at_resolution (empty_env_scenario\<lparr>env := None\<rparr>)
     = Inl (Error ''Runner environment is undefined!'')
   \<and> new_ASGRunnerStack scripts at_resolution empty_env_scenario
       \<noteq> Inl (Error ''Runner environment is undefined!'')"
proof -
  have f: "scripts ''./scripts/setup-runner.sh'' = Some ''./configure-mac-runner\<newline>''"
    "scripts ''./scripts/windows-runner-user-data.yaml'' = Some
        ''runAs: admin\<newline>labels: <STAGE>\<newline>repo: <REPO>\<newline>region: <REGION>\<newline>''"
    "scripts ''./scripts/setup-linux-runner.sh'' = Some ''./configure-linux-runner\<newline>''"
    by (simp_all add: scripts_def)
  have e: "env (empty_env_scenario\<lparr>env := None\<rparr>) = None" "env empty_env_scenario \<noteq> None"
    by (simp_all add: empty_env_scenario_def)
  from raises_exactly_when_env_undefined[OF f, of at_resolution "empty_env_scenario\<lparr>env := None\<rparr>"]
       raises_exactly_when_env_undefined[OF f, of at_resolution empty_env_scenario] e
  show ?thesis by simp
qed

end
